theory Spec2Isabelle
  imports Main
begin

section \<open>The parsing routes of the document ingestion API\<close>

text \<open>
  A shallow embedding of \<^verbatim>\<open>backend/api/parsing_routes.py\<close>: the four route
  handlers \<^verbatim>\<open>get_parsers\<close>, \<^verbatim>\<open>parse_document\<close>, \<^verbatim>\<open>get_task_status\<close> and
  \<^verbatim>\<open>get_all_tasks\<close>. The handlers are thin: what they compute is decided by the
  order of their checks and by where their \<^verbatim>\<open>try\<close> blocks begin and end, so the
  model keeps every \<^verbatim>\<open>raise\<close> and every \<^verbatim>\<open>except\<close> of the source as a branch.
  The collaborators the handlers call (the document database, the settings, the
  Celery tasks and the Celery inspector) are fields of records the handlers take
  as arguments.
\<close>

subsection \<open>Exceptions\<close>

text \<open>
  A Python exception is either the web framework's \<^verbatim>\<open>HTTPException\<close>, with its
  status code and detail, or any other exception, kept as the text that
  \<^verbatim>\<open>str(e)\<close> gives for it. \<^verbatim>\<open>HTTPException\<close> is a subclass of \<^verbatim>\<open>Exception\<close>, so a
  handler \<^verbatim>\<open>except Exception\<close> catches both.
\<close>

datatype exn = HTTPException nat string | Error string

fun status_code :: "exn \<Rightarrow> nat option" where
  "status_code (HTTPException c d) = Some c"
| "status_code (Error m) = None"

text \<open>
  \<^verbatim>\<open>str(e)\<close>. What \<^verbatim>\<open>str\<close> gives for an \<^verbatim>\<open>HTTPException\<close> is decided by the
  framework (its \<^verbatim>\<open>__str__\<close>), which is not part of the repository: it is the
  parameter \<open>h\<close>.
\<close>

fun py_str :: "(nat \<Rightarrow> string \<Rightarrow> string) \<Rightarrow> exn \<Rightarrow> string" where
  "py_str h (HTTPException c d) = h c d"
| "py_str h (Error m) = m"

subsection \<open>Submitting a document for parsing\<close>

text \<open>The two Celery tasks of \<^verbatim>\<open>tasks.parsing_tasks\<close> the handler dispatches to.\<close>

datatype task = parse_markitdown_task | parse_docling_task

text \<open>
  What the handler does to the world outside it: the calls it makes to its
  collaborators, in order, and the units of work the work queue holds.
\<close>

datatype call = GetDocument string | Delay task string

record world =
  queue :: "(task \<times> string) list"
  calls :: "call list"

text \<open>
  The collaborators of the submission path.
  \<^item> \<open>enable_parsers\<close> is \<^verbatim>\<open>settings.features.enable_parsers\<close>.
  \<^item> \<open>get_document\<close> is \<^verbatim>\<open>db.get_document\<close>: it raises, or returns \<^verbatim>\<open>None\<close>
    (\<open>Inr None\<close>), or returns a document (an object, hence truthy).
  \<^item> \<open>accept\<close> is the work queue deciding, for a task, a document identifier and
    its present content, whether it takes the unit of work: it refuses with an
    exception or gives the identifier generated for the job.
  \<^item> \<open>http_str\<close> is the framework's \<^verbatim>\<open>HTTPException.__str__\<close>.
  \<^item> \<open>parsers\<close> is what \<^verbatim>\<open>parser_service.get_parsers()\<close> returns.
\<close>

record 'doc services =
  enable_parsers :: bool
  get_document :: "string \<Rightarrow> exn + 'doc option"
  accept :: "task \<Rightarrow> string \<Rightarrow> (task \<times> string) list \<Rightarrow> exn + string"
  http_str :: "nat \<Rightarrow> string \<Rightarrow> string"
  parsers :: "string list"

record ParseDocumentRequest =
  document_id :: string
  parser :: string

record parse_response =
  task_id :: string
  status_url :: string


text \<open>
  Modelled from the spec: \<^verbatim>\<open>task.delay(document_id)\<close>, the enqueue of the Celery
  client, which is not under the sources. The spec's dispatcher fails with a
  dispatch error when "the work queue cannot accept the unit of work", and on
  success "enqueues a single unit of work tagged with the document identifier and
  parser name and returns a freshly generated job identifier": a refused unit
  leaves the queue as it was, an accepted one is appended to it.
\<close>

definition delay :: "'doc services \<Rightarrow> task \<Rightarrow> string \<Rightarrow> world \<Rightarrow> (exn + string) \<times> world" where
  "delay sv t doc w =
     (let w' = w\<lparr>calls := calls w @ [Delay t doc]\<rparr> in
      case accept sv t doc (queue w) of
        Inl e \<Rightarrow> (Inl e, w')
      | Inr tid \<Rightarrow> (Inr tid, w'\<lparr>queue := queue w @ [(t, doc)]\<rparr>))"

text \<open>
  The statement after the dispatch, line 53:
  \<^verbatim>\<open>return {"task_id": task.id, "status_url": f"parsing/tasks/{task.id}"}\<close>.
\<close>

definition dispatch :: "'doc services \<Rightarrow> task \<Rightarrow> string \<Rightarrow> world \<Rightarrow> (exn + parse_response) \<times> world" where
  "dispatch sv t doc w =
     (case delay sv t doc w of
        (Inl e, w') \<Rightarrow> (Inl e, w')
      | (Inr tid, w') \<Rightarrow>
          (Inr \<lparr>task_id = tid, status_url = ''parsing/tasks/'' @ tid\<rparr>, w'))"

text \<open>
  The body of the \<^verbatim>\<open>try\<close> block of \<^verbatim>\<open>parse_document\<close>, lines 38 to 53: the
  document lookup, the test \<^verbatim>\<open>if not simbadoc\<close>, then the chain of comparisons
  of the parser name with the two literals. Logging is left out.
\<close>

definition parse_document_body ::
  "'doc services \<Rightarrow> ParseDocumentRequest \<Rightarrow> world \<Rightarrow> (exn + parse_response) \<times> world" where
  "parse_document_body sv request w =
     (let w1 = w\<lparr>calls := calls w @ [GetDocument (document_id request)]\<rparr> in
      case get_document sv (document_id request) of
        Inl e \<Rightarrow> (Inl e, w1)
      | Inr None \<Rightarrow> (Inl (HTTPException 404 ''Document not found''), w1)
      | Inr (Some simbadoc) \<Rightarrow>
          if parser request = ''markitdown'' then
            dispatch sv parse_markitdown_task (document_id request) w1
          else if parser request = ''docling'' then
            dispatch sv parse_docling_task (document_id request) w1
          else (Inl (HTTPException 400 ''Unsupported parser''), w1))"

text \<open>
  \<^verbatim>\<open>parse_document\<close>: the feature flag is tested before the \<^verbatim>\<open>try\<close> block, so
  its 501 reaches the caller as raised. Every exception raised inside the block,
  those the block raises itself included, is caught by \<^verbatim>\<open>except Exception as e\<close>
  and raised again as \<^verbatim>\<open>HTTPException(status_code=500, detail=str(e))\<close>.
\<close>

definition parse_document ::
  "'doc services \<Rightarrow> ParseDocumentRequest \<Rightarrow> world \<Rightarrow> (exn + parse_response) \<times> world" where
  "parse_document sv request w =
     (if \<not> enable_parsers sv then
        (Inl (HTTPException 501 ''Document parsing is disabled in system configuration''), w)
      else
        case parse_document_body sv request w of
          (Inl e, w') \<Rightarrow> (Inl (HTTPException 500 (py_str (http_str sv) e)), w')
        | (Inr r, w') \<Rightarrow> (Inr r, w'))"

subsection \<open>The status of a job\<close>

text \<open>
  Modelled from the spec: the status store and the read \<^verbatim>\<open>celery.AsyncResult\<close>
  gives of it, which are not under the sources. The spec's states are
  \<^verbatim>\<open>PENDING\<close>, \<^verbatim>\<open>STARTED\<close>, \<^verbatim>\<open>SUCCESS\<close> and \<^verbatim>\<open>FAILURE\<close>, the last two terminal,
  and "an unknown job identifier returns a well-defined unknown state rather than
  an error, since the status store may have expired old entries or the identifier
  may never have existed". A job's record holds its state and, once it is
  terminal, its result or its error.
\<close>

datatype job_state = PENDING | STARTED | SUCCESS | FAILURE | UNKNOWN

record 'v job =
  job_state :: job_state
  outcome :: "'v option"

type_synonym 'v status_store = "string \<rightharpoonup> 'v job"

fun terminal :: "job_state \<Rightarrow> bool" where
  "terminal SUCCESS = True"
| "terminal FAILURE = True"
| "terminal s = False"

text \<open>
  Modelled from the spec: the three reads the handler makes of an
  \<^verbatim>\<open>AsyncResult\<close> (\<^verbatim>\<open>status\<close>, \<^verbatim>\<open>result\<close>, \<^verbatim>\<open>ready()\<close>), as reads of one snapshot
  of the store.
\<close>

record 'v AsyncResult =
  status :: job_state
  result :: "'v option"
  ready :: bool

definition AsyncResult :: "'v status_store \<Rightarrow> string \<Rightarrow> 'v AsyncResult" where
  "AsyncResult st tid =
     (case st tid of
        None \<Rightarrow> \<lparr>status = UNKNOWN, result = None, ready = False\<rparr>
      | Some j \<Rightarrow> \<lparr>status = job_state j, result = outcome j, ready = terminal (job_state j)\<rparr>)"

text \<open>Modelled from the spec: the store dropping an old entry.\<close>

definition expire :: "'v status_store \<Rightarrow> string \<Rightarrow> 'v status_store" where
  "expire st tid = st(tid := None)"

text \<open>
  The dictionary \<^verbatim>\<open>get_task_status\<close> returns, with its keys \<^verbatim>\<open>task_id\<close>,
  \<^verbatim>\<open>status\<close> and \<^verbatim>\<open>result\<close> (prefixed here, the plain names being fields above).
\<close>

record 'v status_response =
  r_task_id :: string
  r_status :: job_state
  r_result :: "'v option"

text \<open>
  \<^verbatim>\<open>get_task_status\<close>, lines 62 to 67. The handler only reads: the store it
  leaves is the store it found, returned with the response.
\<close>

definition get_task_status :: "'v status_store \<Rightarrow> string \<Rightarrow> 'v status_response \<times> 'v status_store" where
  "get_task_status st tid =
     (let res = AsyncResult st tid in
      (\<lparr>r_task_id = tid,
        r_status = status res,
        r_result = (if ready res then result res else None)\<rparr>, st))"

subsection \<open>The snapshot of the worker fleet\<close>

text \<open>
  An inspection reply is a Python dictionary from worker names to what each
  worker reports, or \<^verbatim>\<open>None\<close> when no worker answered. A sub-query of the inspector
  raises or returns a reply.
\<close>

type_synonym 'a reply = "(string \<times> 'a) list option"

record ('a, 's) inspector =
  i_active :: "exn + 'a reply"
  i_reserved :: "exn + 'a reply"
  i_scheduled :: "exn + 'a reply"
  i_registered :: "exn + 'a reply"
  i_stats :: "exn + 's reply"
  i_http_str :: "nat \<Rightarrow> string \<Rightarrow> string"

text \<open>
  The dictionary the handler returns. The first four keys are always there, with
  the reply as its value; the key \<^verbatim>\<open>stats\<close> is there or not (\<open>None\<close>: no such key).
\<close>

record ('a, 's) tasks =
  active :: "'a reply"
  reserved :: "'a reply"
  scheduled :: "'a reply"
  registered :: "'a reply"
  stats :: "(string \<times> 's) list option"

text \<open>Python's truth value of a reply: \<^verbatim>\<open>None\<close> and the empty dictionary are false.\<close>

fun truthy :: "'s reply \<Rightarrow> bool" where
  "truthy None = False"
| "truthy (Some []) = False"
| "truthy (Some (x # xs)) = True"

text \<open>
  The inner \<^verbatim>\<open>try\<close> of lines 82 to 87: a bare \<^verbatim>\<open>except: pass\<close> around the
  statistics, whose key is set only when the reply is true.
\<close>

definition add_stats :: "('a, 's) inspector \<Rightarrow> (string \<times> 's) list option" where
  "add_stats i =
     (case i_stats i of
        Inl e \<Rightarrow> None
      | Inr s \<Rightarrow> if truthy s then s else None)"

text \<open>
  \<^verbatim>\<open>get_all_tasks\<close>: the dictionary display of lines 74 to 79 evaluates the four
  sub-queries from top to bottom inside the outer \<^verbatim>\<open>try\<close>, whose handler turns
  any exception into \<^verbatim>\<open>HTTPException(status_code=500, detail=str(e))\<close>.
  Building the inspector object (line 73) asks the workers nothing.
\<close>

definition get_all_tasks :: "('a, 's) inspector \<Rightarrow> exn + ('a, 's) tasks" where
  "get_all_tasks i =
     (let fail = (\<lambda>e. Inl (HTTPException 500 (py_str (i_http_str i) e))) in
      case i_active i of Inl e \<Rightarrow> fail e | Inr a \<Rightarrow>
      case i_reserved i of Inl e \<Rightarrow> fail e | Inr r \<Rightarrow>
      case i_scheduled i of Inl e \<Rightarrow> fail e | Inr s \<Rightarrow>
      case i_registered i of Inl e \<Rightarrow> fail e | Inr g \<Rightarrow>
        Inr \<lparr>active = a, reserved = r, scheduled = s, registered = g,
             stats = add_stats i\<rparr>)"

subsection \<open>Example collaborators\<close>

text \<open>
  The decimal digits of a status code, and the text recent versions of the
  framework give for \<^verbatim>\<open>str\<close> of an \<^verbatim>\<open>HTTPException\<close>:
  \<^verbatim>\<open>f"{self.status_code}: {self.detail}"\<close>.
\<close>

fun decimal :: "nat \<Rightarrow> string" where
  "decimal n =
     (if n < 10 then [char_of (48 + n)]
      else decimal (n div 10) @ [char_of (48 + n mod 10)])"

definition starlette_str :: "nat \<Rightarrow> string \<Rightarrow> string" where
  "starlette_str c d = decimal c @ '': '' @ d"

text \<open>
  A deployment with parsing enabled, one stored document \<^verbatim>\<open>doc-1\<close>, a queue
  that accepts every unit and numbers its jobs, and a parser service that lists
  more names than the handler dispatches on.
\<close>

definition sv_up :: "unit services" where
  "sv_up =
     \<lparr>enable_parsers = True,
      get_document = (\<lambda>d. if d = ''doc-1'' then Inr (Some ()) else Inr None),
      accept = (\<lambda>t d q. Inr (''job-'' @ decimal (length q))),
      http_str = starlette_str,
      parsers = [''markitdown'', ''docling'', ''unstructured'']\<rparr>"

text \<open>The same deployment with the feature switched off, and with the queue down.\<close>

definition sv_off :: "unit services" where
  "sv_off = sv_up\<lparr>enable_parsers := False\<rparr>"

definition sv_down :: "unit services" where
  "sv_down = sv_up\<lparr>accept := (\<lambda>t d q. Inl (Error ''broker unavailable''))\<rparr>"

definition w0 :: world where
  "w0 = \<lparr>queue = [], calls = []\<rparr>"

text \<open>
  A fleet of one worker whose \<^verbatim>\<open>reserved\<close> sub-query times out while the
  others answer, and the same fleet with every sub-query answering but the
  statistics.
\<close>

definition fleet_reserved_down :: "(string list, nat) inspector" where
  "fleet_reserved_down =
     \<lparr>i_active = Inr (Some [(''worker-1'', [''job-0''])]),
      i_reserved = Inl (Error ''timed out''),
      i_scheduled = Inr (Some [(''worker-1'', [])]),
      i_registered = Inr (Some [(''worker-1'', [''parse_markitdown_task'', ''parse_docling_task''])]),
      i_stats = Inr None,
      i_http_str = starlette_str\<rparr>"

definition fleet_stats_down :: "(string list, nat) inspector" where
  "fleet_stats_down =
     fleet_reserved_down\<lparr>i_reserved := Inr None, i_stats := Inl (Error ''timed out'')\<rparr>"

text \<open>A status store holding one finished job.\<close>

definition store_done :: "string status_store" where
  "store_done = [''job-0'' \<mapsto> \<lparr>job_state = SUCCESS, outcome = Some ''# parsed''\<rparr>]"

section \<open>Properties\<close>

subsection \<open>The feature flag\<close>

text \<open>
  Claim C4. Whenever the parsing feature flag is disabled, \<^verbatim>\<open>parse_document\<close>
  fails with the feature-disabled error (status 501), whatever the request and
  whatever the collaborators would answer, and it makes no call at all: no
  document lookup, no dispatch, and the work queue is left as it was.
\<close>

theorem parse_document_disabled:
  assumes "\<not> enable_parsers sv"
  shows "parse_document sv request w =
           (Inl (HTTPException 501 ''Document parsing is disabled in system configuration''), w)"
  using assms by (simp add: parse_document_def)

theorem parse_document_disabled_witness:
  "\<not> enable_parsers sv_off \<and>
   parse_document sv_off \<lparr>document_id = ''doc-1'', parser = ''markitdown''\<rparr> w0 =
     (Inl (HTTPException 501 ''Document parsing is disabled in system configuration''),
      \<lparr>queue = [], calls = []\<rparr>)"
proof -
  have off: "\<not> enable_parsers sv_off"
    by (simp add: sv_off_def sv_up_def)
  from parse_document_disabled [OF off, of "\<lparr>document_id = ''doc-1'', parser = ''markitdown''\<rparr>" w0]
  show ?thesis using off by (simp add: w0_def)
qed

subsection \<open>Helper facts about the submission path\<close>

lemma delay_refused:
  "accept sv t doc (queue w) = Inl e \<Longrightarrow>
   delay sv t doc w = (Inl e, w\<lparr>calls := calls w @ [Delay t doc]\<rparr>)"
  by (simp add: delay_def)

lemma delay_accepted:
  "accept sv t doc (queue w) = Inr tid \<Longrightarrow>
   delay sv t doc w =
     (Inr tid, w\<lparr>calls := calls w @ [Delay t doc], queue := queue w @ [(t, doc)]\<rparr>)"
  by (simp add: delay_def)

lemma dispatch_cases:
  "dispatch sv t doc w =
     (case accept sv t doc (queue w) of
        Inl e \<Rightarrow> (Inl e, w\<lparr>calls := calls w @ [Delay t doc]\<rparr>)
      | Inr tid \<Rightarrow>
          (Inr \<lparr>task_id = tid, status_url = ''parsing/tasks/'' @ tid\<rparr>,
           w\<lparr>calls := calls w @ [Delay t doc], queue := queue w @ [(t, doc)]\<rparr>))"
  by (simp add: dispatch_def delay_def split: sum.splits)

lemma body_lookup_raises:
  "get_document sv (document_id request) = Inl e \<Longrightarrow>
   parse_document_body sv request w =
     (Inl e, w\<lparr>calls := calls w @ [GetDocument (document_id request)]\<rparr>)"
  by (simp add: parse_document_body_def)

lemma body_not_found:
  "get_document sv (document_id request) = Inr None \<Longrightarrow>
   parse_document_body sv request w =
     (Inl (HTTPException 404 ''Document not found''),
      w\<lparr>calls := calls w @ [GetDocument (document_id request)]\<rparr>)"
  by (simp add: parse_document_body_def)


lemma body_markitdown:
  "get_document sv (document_id request) = Inr (Some d) \<Longrightarrow>
   parser request = ''markitdown'' \<Longrightarrow>
   parse_document_body sv request w =
     dispatch sv parse_markitdown_task (document_id request)
       (w\<lparr>calls := calls w @ [GetDocument (document_id request)]\<rparr>)"
  by (simp add: parse_document_body_def)

lemma body_docling:
  "get_document sv (document_id request) = Inr (Some d) \<Longrightarrow>
   parser request = ''docling'' \<Longrightarrow>
   parse_document_body sv request w =
     dispatch sv parse_docling_task (document_id request)
       (w\<lparr>calls := calls w @ [GetDocument (document_id request)]\<rparr>)"
  by (simp add: parse_document_body_def)

text \<open>The queue after the body: untouched by a failure, one unit longer after a success.\<close>

lemma body_queue:
  "parse_document_body sv request w = (res, w') \<Longrightarrow>
   (case res of
      Inl e \<Rightarrow> queue w' = queue w
    | Inr resp \<Rightarrow>
        (parser request = ''markitdown'' \<and>
           queue w' = queue w @ [(parse_markitdown_task, document_id request)] \<and>
           accept sv parse_markitdown_task (document_id request) (queue w) = Inr (task_id resp)) \<or>
        (parser request = ''docling'' \<and>
           queue w' = queue w @ [(parse_docling_task, document_id request)] \<and>
           accept sv parse_docling_task (document_id request) (queue w) = Inr (task_id resp)))"
  by (auto simp: parse_document_body_def dispatch_cases Let_def
      split: sum.splits option.splits if_splits)

lemma body_status_url:
  "parse_document_body sv request w = (Inr resp, w') \<Longrightarrow>
   status_url resp = ''parsing/tasks/'' @ task_id resp"
  by (auto simp: parse_document_body_def dispatch_cases Let_def
      split: sum.splits option.splits if_splits)

lemma parse_document_enabled:
  "enable_parsers sv \<Longrightarrow>
   parse_document sv request w =
     (case parse_document_body sv request w of
        (Inl e, w') \<Rightarrow> (Inl (HTTPException 500 (py_str (http_str sv) e)), w')
      | (Inr r, w') \<Rightarrow> (Inr r, w'))"
  by (simp add: parse_document_def)

text \<open>With the feature enabled, every failure reaches the caller with status 500.\<close>

lemma parse_document_failure_status:
  "enable_parsers sv \<Longrightarrow> fst (parse_document sv request w) = Inl e \<Longrightarrow>
   status_code e = Some 500"
  by (auto simp: parse_document_enabled split: prod.splits sum.splits)

lemma decimal_404: "decimal 404 = ''404''"
  by code_simp

lemma decimal_400: "decimal 400 = ''400''"
  by code_simp

lemma decimal_0: "decimal 0 = ''0''"
  by code_simp




subsection \<open>Which error a submission fails with\<close>

text \<open>
  Claim C1. A submission naming a document the lookup reports absent and a parser
  that is not supported should fail with the not-found error. Evaluated on the
  handler: the lookup is made first and the body of the \<^verbatim>\<open>try\<close> block raises the
  404 (and never reaches the comparison of the parser name), but the block's own
  handler catches that exception, and the error the caller receives has status
  500, its detail the text of the 404.
\<close>

theorem parse_document_missing_unsupported:
  "fst (parse_document_body sv_up
          \<lparr>document_id = ''missing-doc'', parser = ''unknown-parser''\<rparr> w0) =
     Inl (HTTPException 404 ''Document not found'') \<and>
   parse_document sv_up \<lparr>document_id = ''missing-doc'', parser = ''unknown-parser''\<rparr> w0 =
     (Inl (HTTPException 500 ''404: Document not found''),
      \<lparr>queue = [], calls = [GetDocument ''missing-doc'']\<rparr>)"
  by (simp add: parse_document_def parse_document_body_def sv_up_def w0_def
      starlette_str_def decimal_404 del: decimal.simps)

text \<open>
  Claim C3. The failures of a submission should reach the caller under distinct
  kinds. Evaluated on the handler: the feature-disabled failure has status 501,
  but a missing document, an unsupported parser and a queue that refuses the unit
  all reach the caller with the one status 500.
\<close>

theorem parse_document_failures_status:
  "fst (parse_document sv_off \<lparr>document_id = ''doc-1'', parser = ''markitdown''\<rparr> w0) =
     Inl (HTTPException 501 ''Document parsing is disabled in system configuration'') \<and>
   fst (parse_document sv_up \<lparr>document_id = ''missing-doc'', parser = ''markitdown''\<rparr> w0) =
     Inl (HTTPException 500 ''404: Document not found'') \<and>
   fst (parse_document sv_up \<lparr>document_id = ''doc-1'', parser = ''unknown-parser''\<rparr> w0) =
     Inl (HTTPException 500 ''400: Unsupported parser'') \<and>
   fst (parse_document sv_down \<lparr>document_id = ''doc-1'', parser = ''markitdown''\<rparr> w0) =
     Inl (HTTPException 500 ''broker unavailable'')"
  by (simp add: parse_document_def parse_document_body_def dispatch_cases
      sv_off_def sv_down_def sv_up_def w0_def starlette_str_def decimal_404 decimal_400
      del: decimal.simps)

subsection \<open>What a submission enqueues\<close>

text \<open>
  Claim C7. A call of \<^verbatim>\<open>parse_document\<close> that succeeds adds exactly one unit of
  work to the queue, the task of the requested parser with the document
  identifier; a call that fails, on any path (feature disabled, lookup failed,
  document not found, unsupported parser, unit refused by the queue), leaves the
  queue as it was.
\<close>

theorem parse_document_enqueues:
  "((\<exists>resp. fst (parse_document sv request w) = Inr resp) \<longrightarrow>
      (parser request = ''markitdown'' \<and>
         queue (snd (parse_document sv request w)) =
           queue w @ [(parse_markitdown_task, document_id request)]) \<or>
      (parser request = ''docling'' \<and>
         queue (snd (parse_document sv request w)) =
           queue w @ [(parse_docling_task, document_id request)])) \<and>
   ((\<exists>e. fst (parse_document sv request w) = Inl e) \<longrightarrow>
      queue (snd (parse_document sv request w)) = queue w)"
proof (cases "enable_parsers sv")
  case False
  then show ?thesis by (simp add: parse_document_def)
next
  case True
  obtain res w' where body: "parse_document_body sv request w = (res, w')"
    by (cases "parse_document_body sv request w")
  from body_queue [OF body] True body show ?thesis
    by (cases res) (auto simp: parse_document_enabled)
qed

theorem parse_document_enqueues_witness:
  "fst (parse_document sv_up \<lparr>document_id = ''doc-1'', parser = ''docling''\<rparr> w0) =
     Inr \<lparr>task_id = ''job-0'', status_url = ''parsing/tasks/job-0''\<rparr> \<and>
   queue (snd (parse_document sv_up \<lparr>document_id = ''doc-1'', parser = ''docling''\<rparr> w0)) =
     [(parse_docling_task, ''doc-1'')] \<and>
   fst (parse_document sv_down \<lparr>document_id = ''doc-1'', parser = ''docling''\<rparr> w0) =
     Inl (HTTPException 500 ''broker unavailable'') \<and>
   queue (snd (parse_document sv_down \<lparr>document_id = ''doc-1'', parser = ''docling''\<rparr> w0)) = []"
proof -
  have ok: "fst (parse_document sv_up \<lparr>document_id = ''doc-1'', parser = ''docling''\<rparr> w0) =
      Inr \<lparr>task_id = ''job-0'', status_url = ''parsing/tasks/job-0''\<rparr>"
    by (simp add: parse_document_def parse_document_body_def dispatch_cases sv_up_def w0_def
        decimal_0 del: decimal.simps)
  have ko: "fst (parse_document sv_down \<lparr>document_id = ''doc-1'', parser = ''docling''\<rparr> w0) =
      Inl (HTTPException 500 ''broker unavailable'')"
    by (simp add: parse_document_def parse_document_body_def dispatch_cases
        sv_down_def sv_up_def w0_def)
  from parse_document_enqueues [of sv_up "\<lparr>document_id = ''doc-1'', parser = ''docling''\<rparr>" w0]
    parse_document_enqueues [of sv_down "\<lparr>document_id = ''doc-1'', parser = ''docling''\<rparr>" w0]
    ok ko
  show ?thesis by (simp add: w0_def)
qed

subsection \<open>The capability check\<close>




subsection \<open>The response to a successful submission\<close>

text \<open>
  Claim C9. When \<^verbatim>\<open>parse_document\<close> succeeds, its response holds the job
  identifier the queue generated for the unit, and the status location
  \<^verbatim>\<open>parsing/tasks/\<close> followed by that same identifier. \<^verbatim>\<open>get_task_status\<close> on
  that identifier returns, for every status store, the identifier, the state the
  store gives, and a result that is null whenever that state is not terminal.
\<close>

theorem parse_document_success_response:
  assumes "fst (parse_document sv request w) = Inr resp"
  shows "status_url resp = ''parsing/tasks/'' @ task_id resp \<and>
         (accept sv parse_markitdown_task (document_id request) (queue w) = Inr (task_id resp) \<or>
          accept sv parse_docling_task (document_id request) (queue w) = Inr (task_id resp)) \<and>
         r_task_id (fst (get_task_status st (task_id resp))) = task_id resp \<and>
         r_status (fst (get_task_status st (task_id resp))) =
           (case st (task_id resp) of None \<Rightarrow> UNKNOWN | Some j \<Rightarrow> job_state j) \<and>
         (\<not> terminal (r_status (fst (get_task_status st (task_id resp)))) \<longrightarrow>
            r_result (fst (get_task_status st (task_id resp))) = None)"
proof -
  have en: "enable_parsers sv"
    using assms by (auto simp: parse_document_def split: if_splits)
  obtain res w' where body: "parse_document_body sv request w = (res, w')"
    by (cases "parse_document_body sv request w")
  with assms en have res: "res = Inr resp"
    by (cases res) (auto simp: parse_document_enabled)
  have url: "status_url resp = ''parsing/tasks/'' @ task_id resp"
    using body_status_url body res by blast
  have fresh: "accept sv parse_markitdown_task (document_id request) (queue w) = Inr (task_id resp) \<or>
      accept sv parse_docling_task (document_id request) (queue w) = Inr (task_id resp)"
    using body_queue [OF body] res by auto
  have status: "r_task_id (fst (get_task_status st (task_id resp))) = task_id resp \<and>
      r_status (fst (get_task_status st (task_id resp))) =
        (case st (task_id resp) of None \<Rightarrow> UNKNOWN | Some j \<Rightarrow> job_state j) \<and>
      (\<not> terminal (r_status (fst (get_task_status st (task_id resp)))) \<longrightarrow>
         r_result (fst (get_task_status st (task_id resp))) = None)"
    by (simp add: get_task_status_def AsyncResult_def Let_def split: option.splits)
  from url fresh status show ?thesis by blast
qed

theorem parse_document_success_response_witness:
  "fst (parse_document sv_up \<lparr>document_id = ''doc-1'', parser = ''markitdown''\<rparr> w0) =
     Inr \<lparr>task_id = ''job-0'', status_url = ''parsing/tasks/job-0''\<rparr> \<and>
   fst (get_task_status [''job-0'' \<mapsto> \<lparr>job_state = STARTED, outcome = None\<rparr>] ''job-0'') =
     \<lparr>r_task_id = ''job-0'', r_status = STARTED, r_result = (None :: string option)\<rparr>"
proof -
  let ?req = "\<lparr>document_id = ''doc-1'', parser = ''markitdown''\<rparr>"
  let ?st = "[''job-0'' \<mapsto> \<lparr>job_state = STARTED, outcome = (None :: string option)\<rparr>]"
  have ok: "fst (parse_document sv_up ?req w0) =
      Inr \<lparr>task_id = ''job-0'', status_url = ''parsing/tasks/job-0''\<rparr>"
    by (simp add: parse_document_def parse_document_body_def dispatch_cases sv_up_def w0_def
        decimal_0 del: decimal.simps)
  from parse_document_success_response [OF ok, of ?st] ok
  show ?thesis by (simp add: get_task_status_def AsyncResult_def)
qed

subsection \<open>Reading the status of a job\<close>

lemma get_task_status_store: "snd (get_task_status st tid) = st"
  by (simp add: get_task_status_def Let_def)

lemma get_task_status_absent:
  "st tid = None \<Longrightarrow>
   fst (get_task_status st tid) = \<lparr>r_task_id = tid, r_status = UNKNOWN, r_result = None\<rparr>"
  by (simp add: get_task_status_def AsyncResult_def)

lemma get_task_status_present:
  "st tid = Some j \<Longrightarrow>
   fst (get_task_status st tid) =
     \<lparr>r_task_id = tid, r_status = job_state j,
      r_result = (if terminal (job_state j) then outcome j else None)\<rparr>"
  by (simp add: get_task_status_def AsyncResult_def)

text \<open>
  Claim C5. For a job identifier the status store has no record of,
  \<^verbatim>\<open>get_task_status\<close> returns a response, with the state \<^verbatim>\<open>UNKNOWN\<close> and a null
  result, and not an error; it is the response the handler gives for that
  identifier on any store from which its record has expired.
\<close>

theorem get_task_status_never_issued:
  assumes "st tid = None"
  shows "fst (get_task_status st tid) = \<lparr>r_task_id = tid, r_status = UNKNOWN, r_result = None\<rparr> \<and>
         fst (get_task_status (expire st' tid) tid) = fst (get_task_status st tid)"
  using assms by (simp add: get_task_status_absent expire_def)

theorem get_task_status_never_issued_witness:
  "Map.empty ''job-0'' = (None :: string job option) \<and>
   store_done ''job-0'' \<noteq> None \<and>
   fst (get_task_status (Map.empty :: string status_store) ''job-0'') =
     \<lparr>r_task_id = ''job-0'', r_status = UNKNOWN, r_result = None\<rparr> \<and>
   fst (get_task_status (expire store_done ''job-0'') ''job-0'') =
     \<lparr>r_task_id = ''job-0'', r_status = UNKNOWN, r_result = None\<rparr>"
proof -
  have never: "(Map.empty :: string status_store) ''job-0'' = None"
    by simp
  from get_task_status_never_issued
    [where st = "Map.empty :: string status_store" and tid = "''job-0''" and st' = store_done]
    never
  show ?thesis by (simp add: store_done_def)
qed

text \<open>
  Claim C8. For a job whose record in the status store is terminal
  (\<^verbatim>\<open>SUCCESS\<close> or \<^verbatim>\<open>FAILURE\<close>), \<^verbatim>\<open>get_task_status\<close> returns the identifier, the
  state and the recorded outcome and leaves the store as it found it; any number
  of further calls, each on the store the previous one left, return that same
  response and that same store.
\<close>

theorem get_task_status_terminal_idempotent:
  assumes "st tid = Some j" and "terminal (job_state j)"
  shows "get_task_status st tid =
           (\<lparr>r_task_id = tid, r_status = job_state j, r_result = outcome j\<rparr>, st) \<and>
         ((\<lambda>p. get_task_status (snd p) tid) ^^ n) (get_task_status st tid) =
           get_task_status st tid"
proof -
  have first: "get_task_status st tid =
      (\<lparr>r_task_id = tid, r_status = job_state j, r_result = outcome j\<rparr>, st)"
    using assms get_task_status_present [of st tid j] get_task_status_store [of st tid]
    by (simp add: prod_eq_iff)
  have again: "((\<lambda>p. get_task_status (snd p) tid) ^^ n) (get_task_status st tid) =
      get_task_status st tid"
    by (induction n) (simp_all add: get_task_status_store)
  from first again show ?thesis by blast
qed

theorem get_task_status_terminal_idempotent_witness:
  "get_task_status store_done ''job-0'' =
     (\<lparr>r_task_id = ''job-0'', r_status = SUCCESS, r_result = Some ''# parsed''\<rparr>, store_done) \<and>
   get_task_status (snd (get_task_status (snd (get_task_status store_done ''job-0'')) ''job-0''))
       ''job-0'' =
     (\<lparr>r_task_id = ''job-0'', r_status = SUCCESS, r_result = Some ''# parsed''\<rparr>, store_done)"
proof -
  let ?j = "\<lparr>job_state = SUCCESS, outcome = Some ''# parsed''\<rparr>"
  have rec: "store_done ''job-0'' = Some ?j"
    by (simp add: store_done_def)
  have fin: "terminal (job_state ?j)"
    by simp
  from get_task_status_terminal_idempotent
    [where st = store_done and tid = "''job-0''" and j = ?j and n = 2] rec fin
  show ?thesis by (simp add: numeral_2_eq_2)
qed

subsection \<open>The snapshot of the fleet\<close>

lemma get_all_tasks_returns:
  "i_active i = Inr a \<Longrightarrow> i_reserved i = Inr r \<Longrightarrow> i_scheduled i = Inr s \<Longrightarrow>
   i_registered i = Inr g \<Longrightarrow>
   get_all_tasks i =
     Inr \<lparr>active = a, reserved = r, scheduled = s, registered = g, stats = add_stats i\<rparr>"
  by (simp add: get_all_tasks_def)

lemma get_all_tasks_raises:
  "i_active i = Inl e \<or> i_reserved i = Inl e \<or> i_scheduled i = Inl e \<or> i_registered i = Inl e \<Longrightarrow>
   \<exists>m. get_all_tasks i = Inl (HTTPException 500 m)"
  by (auto simp: get_all_tasks_def Let_def split: sum.splits)

text \<open>
  Claim C2, as the specification states it: when exactly one of the four
  sub-queries fails the call still succeeds. It does not: with \<^verbatim>\<open>reserved\<close>
  raising and the three others answering, the handler of the enclosing \<^verbatim>\<open>try\<close>
  ends the call with status 500.
\<close>

theorem get_all_tasks_one_failure_aborts:
  "i_active fleet_reserved_down = Inr (Some [(''worker-1'', [''job-0''])]) \<and>
   i_reserved fleet_reserved_down = Inl (Error ''timed out'') \<and>
   i_scheduled fleet_reserved_down = Inr (Some [(''worker-1'', [])]) \<and>
   i_registered fleet_reserved_down =
     Inr (Some [(''worker-1'', [''parse_markitdown_task'', ''parse_docling_task''])]) \<and>
   get_all_tasks fleet_reserved_down = Inl (HTTPException 500 ''timed out'')"
  by (simp add: get_all_tasks_def fleet_reserved_down_def)

text \<open>
  Claim C2, amended. The four sub-queries are evaluated in one guarded block.
  When all four return, a sub-query that got no answer returning nothing, the
  call succeeds and its result holds the four replies as returned. When any of
  the four raises, the call fails with status 500 and returns no result.
\<close>

theorem get_all_tasks_all_or_nothing:
  "(i_active i = Inr a \<and> i_reserved i = Inr r \<and> i_scheduled i = Inr s \<and>
      i_registered i = Inr g \<longrightarrow>
      (\<exists>x. get_all_tasks i =
         Inr \<lparr>active = a, reserved = r, scheduled = s, registered = g, stats = x\<rparr>)) \<and>
   (i_active i = Inl e \<or> i_reserved i = Inl e \<or> i_scheduled i = Inl e \<or>
      i_registered i = Inl e \<longrightarrow>
      (\<exists>m. get_all_tasks i = Inl (HTTPException 500 m)))"
  using get_all_tasks_returns [of i a r s g] get_all_tasks_raises [of i e] by blast

theorem get_all_tasks_all_or_nothing_witness:
  "get_all_tasks fleet_stats_down =
     Inr \<lparr>active = Some [(''worker-1'', [''job-0''])], reserved = None,
          scheduled = Some [(''worker-1'', [])],
          registered = Some [(''worker-1'', [''parse_markitdown_task'', ''parse_docling_task''])],
          stats = None\<rparr> \<and>
   get_all_tasks fleet_reserved_down = Inl (HTTPException 500 ''timed out'')"
proof -
  have up: "i_active fleet_stats_down = Inr (Some [(''worker-1'', [''job-0''])]) \<and>
      i_reserved fleet_stats_down = Inr None \<and>
      i_scheduled fleet_stats_down = Inr (Some [(''worker-1'', [])]) \<and>
      i_registered fleet_stats_down =
        Inr (Some [(''worker-1'', [''parse_markitdown_task'', ''parse_docling_task''])])"
    by (simp add: fleet_stats_down_def fleet_reserved_down_def)
  have down: "i_reserved fleet_reserved_down = Inl (Error ''timed out'')"
    by (simp add: fleet_reserved_down_def)
  from get_all_tasks_all_or_nothing [of fleet_stats_down _ _ _ _ "Error ''timed out''"] up
  obtain x where one: "get_all_tasks fleet_stats_down =
      Inr \<lparr>active = Some [(''worker-1'', [''job-0''])], reserved = None,
           scheduled = Some [(''worker-1'', [])],
           registered = Some [(''worker-1'', [''parse_markitdown_task'', ''parse_docling_task''])],
           stats = x\<rparr>"
    by blast
  have x: "x = None"
    using one by (simp add: get_all_tasks_def add_stats_def fleet_stats_down_def
        fleet_reserved_down_def)
  from get_all_tasks_all_or_nothing [of fleet_reserved_down _ _ _ _ "Error ''timed out''"] down
  obtain m where two: "get_all_tasks fleet_reserved_down = Inl (HTTPException 500 m)"
    by blast
  have m: "m = ''timed out''"
    using two by (simp add: get_all_tasks_def fleet_reserved_down_def)
  from one x two m show ?thesis by simp
qed

text \<open>
  Claim C6. A failure of the statistics sub-query is absorbed: with the four
  other sub-queries returning, the call returns their four replies and no
  \<^verbatim>\<open>stats\<close> key; and whatever the four do, the call's outcome with the statistics
  raising is its outcome with the statistics returning nothing, so the failure
  never reaches the caller.
\<close>

theorem get_all_tasks_stats_absorbed:
  "get_all_tasks \<lparr>i_active = Inr a, i_reserved = Inr r, i_scheduled = Inr s,
                  i_registered = Inr g, i_stats = Inl e, i_http_str = h\<rparr> =
     Inr \<lparr>active = a, reserved = r, scheduled = s, registered = g, stats = None\<rparr> \<and>
   get_all_tasks (i\<lparr>i_stats := Inl e\<rparr>) = get_all_tasks (i\<lparr>i_stats := Inr None\<rparr>)"
  by (simp add: get_all_tasks_def add_stats_def Let_def split: sum.splits)

end
